theory Spec2Isabelle
  imports Complex_Main "HOL-Library.Word"
begin

unbundle bit_operations_syntax

section \<open>Python values used by the handler\<close>

text \<open>
  A Python \<^verbatim>\<open>str\<close> is a sequence of Unicode code points; a code point is a natural
  number here, so that characters above 255 (the system prompt contains U+2014, and
  \<^verbatim>\<open>str.strip\<close> removes U+00A0, U+2028, ...) are represented exactly.
  \<open>u\<close> reads an ASCII literal as such a string.
\<close>

type_synonym ustr = "nat list"

definition u :: "string \<Rightarrow> ustr" where
  "u s = map of_char s"

text \<open>
  The values \<^verbatim>\<open>json.loads\<close> and \<^verbatim>\<open>request.get_json\<close> produce: \<^verbatim>\<open>None\<close>, \<^verbatim>\<open>bool\<close>,
  \<^verbatim>\<open>int\<close>, \<^verbatim>\<open>float\<close> (its 64 IEEE-754 bits), \<^verbatim>\<open>str\<close>, \<^verbatim>\<open>list\<close> and \<^verbatim>\<open>dict\<close> (an
  association list in insertion order; a lookup takes the first entry of a key).
\<close>

datatype json =
    JNull
  | JBool bool
  | JInt int
  | JFloat "64 word"
  | JStr ustr
  | JArr "json list"
  | JObj "(ustr \<times> json) list"

text \<open>
  The exceptions that can reach the handler's \<^verbatim>\<open>except\<close> clauses, each with its
  \<^verbatim>\<open>str(e)\<close>. \<open>APIError\<close> is \<^verbatim>\<open>anthropic.APIError\<close> with all its subclasses,
  \<open>JSONDecodeError\<close> is \<^verbatim>\<open>json.JSONDecodeError\<close>; \<open>ValueError\<close> stands for a
  \<^verbatim>\<open>ValueError\<close> that is neither a \<^verbatim>\<open>JSONDecodeError\<close> nor a \<^verbatim>\<open>UnicodeEncodeError\<close>,
  and \<open>OtherException\<close> for any other subclass of \<^verbatim>\<open>Exception\<close>.
\<close>

datatype exn =
    APIError ustr
  | JSONDecodeError ustr
  | ValueError ustr
  | AttributeError ustr
  | TypeError ustr
  | IndexError ustr
  | UnicodeEncodeError ustr
  | OtherException ustr

fun str_exn :: "exn \<Rightarrow> ustr" where
  "str_exn (APIError m) = m"
| "str_exn (JSONDecodeError m) = m"
| "str_exn (ValueError m) = m"
| "str_exn (AttributeError m) = m"
| "str_exn (TypeError m) = m"
| "str_exn (IndexError m) = m"
| "str_exn (UnicodeEncodeError m) = m"
| "str_exn (OtherException m) = m"

text \<open>\<^verbatim>\<open>type(v).__name__\<close>, as it appears in the messages of the interpreter.\<close>

fun type_name :: "json \<Rightarrow> ustr" where
  "type_name JNull = u ''NoneType''"
| "type_name (JBool b) = u ''bool''"
| "type_name (JInt i) = u ''int''"
| "type_name (JFloat w) = u ''float''"
| "type_name (JStr s) = u ''str''"
| "type_name (JArr xs) = u ''list''"
| "type_name (JObj kvs) = u ''dict''"

text \<open>
  Truth value testing: \<^verbatim>\<open>None\<close>, \<^verbatim>\<open>False\<close>, zero (for a float both \<open>+0.0\<close> and
  \<open>-0.0\<close>, that is every bit but the sign clear; NaN is true) and the empty string,
  list and dict are false.
\<close>

fun truthy :: "json \<Rightarrow> bool" where
  "truthy JNull = False"
| "truthy (JBool b) = b"
| "truthy (JInt i) = (i \<noteq> 0)"
| "truthy (JFloat w) = (push_bit 1 w \<noteq> 0)"
| "truthy (JStr s) = (s \<noteq> [])"
| "truthy (JArr xs) = (xs \<noteq> [])"
| "truthy (JObj kvs) = (kvs \<noteq> [])"

text \<open>A name between apostrophes, as the interpreter's messages show it.\<close>

definition quoted :: "ustr \<Rightarrow> ustr" where
  "quoted s = [39] @ s @ [39]"

definition no_attribute :: "json \<Rightarrow> string \<Rightarrow> exn" where
  "no_attribute v a =
     AttributeError (quoted (type_name v) @ u '' object has no attribute '' @ quoted (u a))"

subsection \<open>String methods\<close>

text \<open>
  \<^verbatim>\<open>str.isspace\<close> on one code point (CPython's \<^verbatim>\<open>_PyUnicode_IsWhitespace\<close>):
  U+0009..U+000D, U+001C..U+001F, U+0020, U+0085, U+00A0, U+1680, U+2000..U+200A,
  U+2028, U+2029, U+202F, U+205F, U+3000.
\<close>

definition isspace :: "nat \<Rightarrow> bool" where
  "isspace c \<longleftrightarrow>
     (9 \<le> c \<and> c \<le> 13) \<or> (28 \<le> c \<and> c \<le> 32) \<or> c = 133 \<or> c = 160 \<or> c = 5760 \<or>
     (8192 \<le> c \<and> c \<le> 8202) \<or> c = 8232 \<or> c = 8233 \<or> c = 8239 \<or> c = 8287 \<or> c = 12288"

text \<open>\<^verbatim>\<open>s.strip()\<close>: leading and trailing whitespace removed.\<close>

definition strip :: "ustr \<Rightarrow> ustr" where
  "strip s = rev (dropWhile isspace (rev (dropWhile isspace s)))"

definition startswith :: "ustr \<Rightarrow> ustr \<Rightarrow> bool" where
  "startswith s p \<longleftrightarrow> take (length p) s = p"

definition endswith :: "ustr \<Rightarrow> ustr \<Rightarrow> bool" where
  "endswith s p \<longleftrightarrow> length p \<le> length s \<and> drop (length s - length p) s = p"

text \<open>
  \<^verbatim>\<open>s.index(c)\<close> for a one-character \<open>c\<close>: the position of its first occurrence, and
  \<^verbatim>\<open>ValueError('substring not found')\<close> when there is none.
\<close>

definition index :: "ustr \<Rightarrow> nat \<Rightarrow> exn + nat" where
  "index s c =
     (if c \<in> set s then Inr (length (takeWhile (\<lambda>x. x \<noteq> c) s))
      else Inl (ValueError (u ''substring not found'')))"

definition fence :: ustr where
  "fence = [96, 96, 96]"

definition newline :: nat where
  "newline = 10"

section \<open>Fence-stripping (lines 156 to 163 of \<^verbatim>\<open>process\<close>)\<close>

text \<open>
  \<^verbatim>\<open>
  cleaned = response_text.strip()
  if cleaned.startswith('```'):
      first_newline = cleaned.index('\n')
      cleaned = cleaned[first_newline + 1:]
  if cleaned.endswith('```'):
      cleaned = cleaned[:-3]
  cleaned = cleaned.strip()
  \<close>
  The slice \<^verbatim>\<open>cleaned[:-3]\<close> keeps the first \<open>length cleaned - 3\<close> characters
  (none when the string is shorter than three).
\<close>

definition strip_opening_fence :: "ustr \<Rightarrow> exn + ustr" where
  "strip_opening_fence cleaned =
     (if startswith cleaned fence then
        (case index cleaned newline of
           Inl e \<Rightarrow> Inl e
         | Inr first_newline \<Rightarrow> Inr (drop (first_newline + 1) cleaned))
      else Inr cleaned)"

definition strip_closing_fence :: "ustr \<Rightarrow> ustr" where
  "strip_closing_fence cleaned =
     (if endswith cleaned fence then take (length cleaned - 3) cleaned else cleaned)"

definition strip_fences :: "ustr \<Rightarrow> exn + ustr" where
  "strip_fences response_text =
     (case strip_opening_fence (strip response_text) of
        Inl e \<Rightarrow> Inl e
      | Inr cleaned \<Rightarrow> Inr (strip (strip_closing_fence cleaned)))"

section \<open>The system prompt (lines 17 to 119)\<close>

text \<open>
  The constant \<^verbatim>\<open>SYSTEM_PROMPT\<close>, line by line; 39 is the apostrophe and 8212 the
  dash U+2014. The last line has no newline after it.
\<close>

definition join_lines :: "ustr list \<Rightarrow> ustr" where
  "join_lines ls = concat (butlast (concat (map (\<lambda>l. [l, [newline]]) ls)))"

definition SYSTEM_PROMPT :: ustr where
  \<open>SYSTEM_PROMPT = join_lines
    [u ''You are a hotel policy extraction system for an Indian travel booking platform.'',
     [],
     u ''You will receive raw hotel policy text from a supplier. Your job is to:'',
     u ''1. Break the text into individual, distinct policy statements (atoms)'',
     u ''2. Classify each atom into a category and sensitivity level'',
     u ''3. Rewrite each atom for clarity while preserving the original detail and meaning'',
     [],
     u ''---'',
     [],
     u ''IMPORTANT: The supplier'' @ [39] @ u ''s title field (e.g. "Guest Profile", "Other Rules", "Common") is ONLY for traceability. Do NOT use it to determine the category or sensitivity. Classify each policy atom SOLELY based on what the policy text says.'',
     [],
     u ''A policy titled "Other Rules" can contain critical couple restrictions.'',
     u ''A policy titled "Food & Beverages" can contain mandatory charges.'',
     u ''A policy titled "Check-in Check-out Policy" can contain ID denial clauses.'',
     u ''Always read the actual text. The title means nothing for classification.'',
     [],
     u ''---'',
     [],
     u ''TAXONOMY:'',
     [],
     u ''CRITICAL '' @ [8212] @ u '' policies that cause check-in denial, surprise financial charges, or trip-breaking restrictions:'',
     [],
     u ''- couple_restriction: Unmarried or unrelated couples not allowed, or allowed only with conditions (both IDs required, marriage certificate needed, etc.)'',
     u ''- local_id_restriction: Local IDs not accepted for check-in, same-city residents not allowed, right of admission reserved for local residents'',
     u ''- mandatory_charges: Compulsory charges NOT included in the booking price '' @ [8212] @ u '' gala dinner supplements, mandatory meal charges, seasonal tariff differences payable at hotel. Must involve a specific charge or explicit "not included in booking" language. Optional fees (breakfast, rollaway bed) are NOT mandatory_charges.'',
     u ''- age_restriction: Minimum age requirement for check-in (e.g. 18+, 21+), bachelors or stag entry not allowed, adults-only property'',
     u ''- nationality_restriction: Only Indian nationals allowed, foreign nationals need specific documents, certain nationalities restricted'',
     u ''- facility_closure: Swimming pool, gym, spa, restaurant, or elevator closed, under renovation, or not operational. Must be a current/active closure, not a general amenity description.'',
     [],
     u ''STANDARD '' @ [8212] @ u '' informational policies, manageable at check-in, not trip-breaking:'',
     [],
     u ''- guest_profile: Couple/unmarried friendly status, male stags allowed or not, adults-only or children allowed, bachelor group policy. Use this for informational guest-type statements that do NOT involve check-in denial. If the text says check-in will be DENIED, use the relevant critical category instead.'',
     u ''- id_documentation: List of accepted ID proof types (Aadhaar, passport, driving license, etc.). Note: if the text also says check-in will be DENIED without ID and no refund given, classify that denial clause as critical under the most relevant critical category, and the ID list itself as standard under id_documentation.'',
     u ''- checkin_checkout: Check-in and check-out timings, early check-in or late check-out fees and availability, front desk hours, key collection process'',
     u ''- child_policy: Children stay free below what age, children chargeable above what age and at what rate, complimentary food for children, infant policy, cribs/cots availability'',
     u ''- extra_bed: Extra bed or mattress availability, charges per night, rollaway bed policy, maximum occupancy rules'',
     u ''- food_beverage: Outside food allowed or not, non-veg food allowed or not, alcohol consumption rules, food delivery (Swiggy/Zomato) allowed or not, in-room dining, complimentary breakfast/meals, restaurant info'',
     u ''- smoking_policy: Smoking rules '' @ [8212] @ u '' where allowed, where restricted, designated smoking areas, penalties for smoking in non-smoking rooms'',
     u ''- pet_policy: Pets allowed or not, service animals policy, pet fees, pet deposit, pets on property'',
     u ''- security_deposit: Refundable or non-refundable security deposit amount, payment mode for deposit, refund timeline, damage deposit'',
     u ''- payment_methods: Accepted payment modes '' @ [8212] @ u '' cards, UPI, cash, mobile payments'',
     u ''- cancellation_refund: Cancellation deadline (free cancellation before X date/time), cancellation penalties, no-show charges and policy, modification fees, refund terms and timeline'',
     u ''- outside_visitors: Visitor entry policy, visitor hours, charges for day visitors, whether non-guests are allowed in rooms or common areas'',
     u ''- damage_policy: Damage charges, liability for property damage, penalties for broken items, linen damage fees'',
     u ''- long_stay: Policies for stays of 30+ nights, monthly stay rules, extended stay conditions, long-term booking discounts'',
     u ''- party_event_policy: Party/event rules, noise restrictions, quiet hours, music cutoff time, DJ policy, celebration rules'',
     u ''- accessibility: Wheelchair accessibility, elevator availability, disabled-friendly facilities, accessible rooms. Note: if the property is NOT accessible or has no elevator, this is still standard unless it represents a closure/breakdown (which would be facility_closure).'',
     u ''- safety_information: Fire safety, emergency exits, CCTV, security guards, COVID protocols, sanitization measures, health requirements, safe deposit box'',
     u ''- property_rules: Curfew timings, parking, general amenity info, any other property rules not covered by the categories above'',
     [],
     u ''OTHERS '' @ [8212] @ u '' use this when the policy text does not fit cleanly into any of the above categories, or when you are not confident about the correct classification. Always standard sensitivity.'',
     [],
     u ''---'',
     [],
     u ''EXTRACTION RULES:'',
     [],
     u ''1. One input blob may contain MULTIPLE distinct policy statements separated by |||, newlines, numbered lists, or just run-on sentences. Extract EACH as a separate atom.'',
     [],
     u ''2. Display text: Write concise, scannable policy statements. Keep critical specifics (amounts, ages, ID types) but cut filler words and repetitive phrasing. Aim for 1 short sentence per atom, 2 sentences max only when a consequence must be stated. Do not repeat the same information in different words within one atom.'',
     u ''   - BAD (too long): "All guests above 18 years of age must carry a valid photo identity card and address proof at check-in. Failure to provide these documents can result in the hotel denying check-in with no refund."'',
     u ''   - GOOD: "Valid photo ID and address proof mandatory at check-in. Check-in denied with no refund if not provided."'',
     u ''   - BAD (too vague): "Extra charges may apply"'',
     u ''   - GOOD: "Extra bed at INR 500/night, payable at property"'',
     u ''   - BAD (multiple atoms): "Couples not allowed no refund ID required 18+ only"'',
     u ''   - GOOD: Split into separate atoms, one per distinct policy'',
     [],
     u ''3. If a policy statement contains BOTH a rule AND a consequence (e.g. "Valid ID is mandatory. Failure to produce ID will result in check-in denial with no refund"), extract them as a SINGLE atom '' @ [8212] @ u '' do not split the rule from its consequence. The consequence is what determines the sensitivity.'',
     [],
     u ''4. Skip generic boilerplate that adds no specific information to the user:'',
     u ''   - "Special requests are subject to availability"'',
     u ''   - "Additional charges may apply"'',
     u ''   - "Please contact the property for details"'',
     u ''   These are noise. Do not extract them.'',
     [],
     u ''5. Skip empty, meaningless, or placeholder text (e.g. ".", "..", blank text). Return an empty array.'',
     [],
     u ''6. For policies with specific monetary amounts, ALWAYS preserve the exact amount clearly in the display text. Format prices prominently '' @ [8212] @ u '' e.g. "INR 3,500 per person", "INR 500/night", "Rs. 2,000 refundable deposit". Never drop, round, or obscure any price. If a price range is mentioned, preserve both ends. If currency is not specified, assume INR. Prices are the most important detail users look for '' @ [8212] @ u '' make them impossible to miss.'',
     [],
     u ''7. If you are unsure about the category, use "others" with sensitivity "standard". Do not force a classification you are not confident about.'',
     [],
     u ''8. Confidence scoring:'',
     u ''   - 0.90-1.00: Text clearly and unambiguously matches the category. No interpretation needed.'',
     u ''   - 0.75-0.89: Text strongly implies the category but has some ambiguity in wording.'',
     u ''   - 0.60-0.74: Text is vague or could belong to multiple categories. You made a judgment call.'',
     u ''   - Below 0.60: You are guessing. Use "others" category instead.'',
     [],
     u ''---'',
     [],
     u ''OUTPUT FORMAT:'',
     [],
     u ''Return ONLY a JSON object with a "policies" key containing an array. Each item:'',
     u ''{'',
     u ''  "policies": ['',
     u ''    {'',
     u ''      "display_text": "Clean, readable policy statement preserving all specific details",'',
     u ''      "category": "one of the taxonomy slugs above",'',
     u ''      "sensitivity": "critical" or "standard",'',
     u ''      "confidence": 0.0 to 1.0'',
     u ''    }'',
     u ''  ]'',
     u ''}'',
     [],
     u ''If the input text is empty or contains no extractable policies, return: {"policies": []}'']\<close>

section \<open>The request handler \<^verbatim>\<open>process\<close> (lines 127 to 184)\<close>

subsection \<open>The outside world\<close>

text \<open>
  One call of \<^verbatim>\<open>anthropic.Anthropic(api_key=...).messages.create(...)\<close>: the key the
  client is built with and the keyword arguments of \<^verbatim>\<open>create\<close>. \<open>messages\<close> is the
  list of \<^verbatim>\<open>{"role": ..., "content": ...}\<close> dicts.
\<close>

record message_param =
  role :: ustr
  content :: ustr

record upstream_call =
  api_key :: ustr
  model :: ustr
  max_tokens :: nat
  temperature :: real
  system :: ustr
  messages :: "message_param list"

text \<open>
  What the call gives back: an exception, or a message whose \<^verbatim>\<open>content\<close> is a list of
  blocks. Only a text block has a \<^verbatim>\<open>text\<close> attribute; any other block is kept with the
  name of its class.
\<close>

datatype content_block = TextBlock ustr | OtherBlock ustr

datatype outcome = Raises exn | Message "content_block list"

text \<open>
  What the caller receives: a JSON body with a status (\<^verbatim>\<open>jsonify(...), status\<close>), or,
  for an exception raised outside the \<^verbatim>\<open>try\<close> block, whatever the framework makes of an
  unhandled exception.
\<close>

datatype response = Response nat json | Unhandled exn

definition jsonify_error :: "ustr \<Rightarrow> nat \<Rightarrow> response" where
  "jsonify_error msg status = Response status (JObj [(u ''error'', JStr msg)])"

definition jsonify_policies :: "json \<Rightarrow> response" where
  "jsonify_policies policies = Response 200 (JObj [(u ''policies'', policies)])"

subsection \<open>Validation (lines 131 to 137)\<close>

text \<open>Sequencing of steps that may raise: the first exception ends the block.\<close>

definition and_then :: "exn + 'a \<Rightarrow> ('a \<Rightarrow> exn + 'b) \<Rightarrow> exn + 'b" where
  "and_then m f = (case m of Inl e \<Rightarrow> Inl e | Inr x \<Rightarrow> f x)"

text \<open>\<^verbatim>\<open>d.get(key)\<close>: \<open>None\<close> stands for an absent key; only a dict has the method.\<close>

definition dict_get :: "json \<Rightarrow> string \<Rightarrow> exn + json option" where
  "dict_get d key =
     (case d of JObj kvs \<Rightarrow> Inr (map_of kvs (u key)) | _ \<Rightarrow> Inl (no_attribute d ''get''))"

text \<open>\<^verbatim>\<open>x or ''\<close>, for \<open>x\<close> the result of \<^verbatim>\<open>data.get(key)\<close>.\<close>

definition or_empty :: "json option \<Rightarrow> json" where
  "or_empty x = (case x of None \<Rightarrow> JStr [] | Some v \<Rightarrow> if truthy v then v else JStr [])"

text \<open>\<^verbatim>\<open>v.strip()\<close>: only a string has the method.\<close>

definition strip_method :: "json \<Rightarrow> exn + ustr" where
  "strip_method v = (case v of JStr s \<Rightarrow> Inr (strip s) | _ \<Rightarrow> Inl (no_attribute v ''strip''))"

text \<open>\<^verbatim>\<open>(data.get(key) or '').strip()\<close>\<close>

definition field_text :: "json \<Rightarrow> string \<Rightarrow> exn + ustr" where
  "field_text data key = and_then (dict_get data key) (\<lambda>x. strip_method (or_empty x))"

text \<open>
  \<^verbatim>\<open>os.environ.get('ANTHROPIC_API_KEY', '')\<close>; the environment is the value of that one
  variable, \<open>None\<close> when it is not set.
\<close>

definition environ_get :: "ustr option \<Rightarrow> ustr" where
  "environ_get environ = (case environ of None \<Rightarrow> [] | Some v \<Rightarrow> v)"

text \<open>\<^verbatim>\<open>k or os.environ.get('ANTHROPIC_API_KEY', '')\<close>, for \<open>k\<close> the trimmed key of the request.\<close>

definition resolve_api_key :: "ustr option \<Rightarrow> ustr \<Rightarrow> ustr" where
  "resolve_api_key environ k = (if k \<noteq> [] then k else environ_get environ)"

subsection \<open>The upstream call (lines 143 to 150)\<close>

definition user_message :: "ustr \<Rightarrow> ustr" where
  \<open>user_message policy_text = u ''Policy text:'' @ [newline] @ u ''"""'' @ policy_text @ u ''"""''\<close>

definition create_call :: "ustr \<Rightarrow> ustr \<Rightarrow> upstream_call" where
  "create_call key policy_text =
     \<lparr>api_key = key,
      model = u ''claude-sonnet-4-20250514'',
      max_tokens = 4096,
      temperature = 0.2,
      system = SYSTEM_PROMPT,
      messages = [\<lparr>role = u ''user'', content = user_message policy_text\<rparr>]\<rparr>"

subsection \<open>Reading the reply (lines 152 to 174)\<close>

text \<open>\<^verbatim>\<open>message.content[0].text\<close>\<close>

definition first_text :: "content_block list \<Rightarrow> exn + ustr" where
  "first_text blocks =
     (case blocks of
        [] \<Rightarrow> Inl (IndexError (u ''list index out of range''))
      | TextBlock t # _ \<Rightarrow> Inr t
      | OtherBlock cls # _ \<Rightarrow>
          Inl (AttributeError (quoted cls @ u '' object has no attribute '' @ quoted (u ''text''))))"

text \<open>\<^verbatim>\<open>parsed.get('policies', []) if isinstance(parsed, dict) else parsed\<close>\<close>

definition policies_of :: "json \<Rightarrow> json" where
  "policies_of parsed =
     (case parsed of
        JObj kvs \<Rightarrow> (case map_of kvs (u ''policies'') of None \<Rightarrow> JArr [] | Some v \<Rightarrow> v)
      | _ \<Rightarrow> parsed)"

text \<open>
  Lines 156 to 166: the text is stripped of its fences and handed to \<^verbatim>\<open>json.loads\<close>,
  and \<^verbatim>\<open>policies\<close> is read off the parsed value. \<^verbatim>\<open>json.loads\<close> is the standard
  library's, so it is a parameter \<open>loads\<close> of the model: on a text it gives a value or
  raises.
\<close>

definition parse_reply :: "(ustr \<Rightarrow> exn + json) \<Rightarrow> ustr \<Rightarrow> exn + json" where
  "parse_reply loads response_text =
     and_then (strip_fences response_text) (\<lambda>cleaned.
     and_then (loads cleaned) (\<lambda>parsed.
     Inr (policies_of parsed)))"

text \<open>\<^verbatim>\<open>len(policies)\<close>; a dict counts its keys.\<close>

definition py_len :: "json \<Rightarrow> exn + nat" where
  "py_len v =
     (case v of
        JStr s \<Rightarrow> Inr (length s)
      | JArr xs \<Rightarrow> Inr (length xs)
      | JObj kvs \<Rightarrow> Inr (length (remdups (map fst kvs)))
      | _ \<Rightarrow> Inl (TypeError (u ''object of type '' @ quoted (type_name v) @ u '' has no len()'')))"

text \<open>
  The values \<^verbatim>\<open>for p in policies\<close> visits: the items of a list, the one-character
  strings of a string, the keys of a dict.
\<close>

definition iterate :: "json \<Rightarrow> exn + json list" where
  "iterate v =
     (case v of
        JStr s \<Rightarrow> Inr (map (\<lambda>c. JStr [c]) s)
      | JArr xs \<Rightarrow> Inr xs
      | JObj kvs \<Rightarrow> Inr (map JStr (remdups (map fst kvs)))
      | _ \<Rightarrow> Inl (TypeError (quoted (type_name v) @ u '' object is not iterable'')))"

text \<open>
  \<^verbatim>\<open>v[:70]\<close>: a string and a list are sliced; a dict is asked for the key
  \<^verbatim>\<open>slice(None, 70, None)\<close>, which is a \<^verbatim>\<open>TypeError\<close> (unhashable) before Python 3.12
  and a \<^verbatim>\<open>KeyError\<close> from 3.12 on, both subclasses of \<^verbatim>\<open>Exception\<close> that are neither
  of the two classes the handler names; nothing else can be subscripted.
\<close>

definition slice70 :: "json \<Rightarrow> exn + json" where
  "slice70 v =
     (case v of
        JStr s \<Rightarrow> Inr (JStr (take 70 s))
      | JArr xs \<Rightarrow> Inr (JArr (take 70 xs))
      | JObj kvs \<Rightarrow> Inl (TypeError (u ''unhashable type: '' @ quoted (u ''slice'')))
      | _ \<Rightarrow> Inl (TypeError (quoted (type_name v) @ u '' object is not subscriptable'')))"

text \<open>
  \<^verbatim>\<open>print\<close> writes to standard output, whose encoding raises \<^verbatim>\<open>UnicodeEncodeError\<close> on
  a text it cannot encode (a lone surrogate under UTF-8, any character outside the code
  page under a legacy encoding). Standard output is a parameter \<open>stdout\<close> of the model:
  \<open>stdout text\<close> is the message of that exception, and \<open>None\<close> when the text is written.
  The lines printed at 139, 140, 168 and 172 consist of ASCII characters only (fixed text
  and a decimal number), which every encoding of standard output encodes: they are no
  step of the model. The prints of the \<^verbatim>\<open>except\<close> clauses (lines 177, 180 and 183) write
  the message the response carries, after the \<^verbatim>\<open>try\<close> block has ended; the model takes
  them to succeed.
\<close>

definition print_line :: "(ustr \<Rightarrow> ustr option) \<Rightarrow> ustr \<Rightarrow> exn + unit" where
  "print_line stdout text =
     (case stdout text of None \<Rightarrow> Inr () | Some reason \<Rightarrow> Inl (UnicodeEncodeError reason))"

text \<open>\<^verbatim>\<open>str(n)\<close> for a length \<open>n\<close>: its decimal digits.\<close>

fun decimal :: "nat \<Rightarrow> ustr" where
  "decimal n = (if n < 10 then [48 + n] else decimal (n div 10) @ [48 + n mod 10])"

declare decimal.simps [simp del]

text \<open>
  A value inside an f-string with no format: a string stands for itself; any other value
  is shown by \<^verbatim>\<open>str\<close>, the interpreter's, which is a parameter \<open>py_str\<close> of the model.
\<close>

definition format_value :: "(json \<Rightarrow> ustr) \<Rightarrow> json \<Rightarrow> ustr" where
  "format_value py_str v = (case v of JStr s \<Rightarrow> s | _ \<Rightarrow> py_str v)"

text \<open>Line 153: \<^verbatim>\<open>f"Raw response ({len(response_text)} chars): {response_text[:200]}"\<close>\<close>

definition raw_response_line :: "ustr \<Rightarrow> ustr" where
  "raw_response_line response_text =
     u ''Raw response ('' @ decimal (length response_text) @ u '' chars): '' @
     take 200 response_text"

text \<open>
  Lines 170 and 171, the body of the logging loop:
  \<^verbatim>\<open>
  tag = "CRIT" if p.get('sensitivity') == 'critical' else "STND"
  print(f"  [{tag}] {p.get('category')}: {p.get('display_text', '')[:70]}")
  \<close>
  The f-string evaluates \<^verbatim>\<open>p.get('category')\<close>, then the slice of
  \<^verbatim>\<open>p.get('display_text', '')\<close>; then the line is printed.
\<close>

definition atom_line :: "(json \<Rightarrow> ustr) \<Rightarrow> json option \<Rightarrow> json option \<Rightarrow> json \<Rightarrow> ustr" where
  "atom_line py_str sensitivity category shown =
     u ''  ['' @
     (if sensitivity = Some (JStr (u ''critical'')) then u ''CRIT'' else u ''STND'') @
     u ''] '' @
     format_value py_str (case category of None \<Rightarrow> JNull | Some v \<Rightarrow> v) @
     u '': '' @
     format_value py_str shown"

definition log_atom :: "(ustr \<Rightarrow> ustr option) \<Rightarrow> (json \<Rightarrow> ustr) \<Rightarrow> json \<Rightarrow> exn + unit" where
  "log_atom stdout py_str p =
     and_then (dict_get p ''sensitivity'') (\<lambda>sensitivity.
     and_then (dict_get p ''category'') (\<lambda>category.
     and_then (dict_get p ''display_text'') (\<lambda>display_text.
     and_then (slice70 (case display_text of None \<Rightarrow> JStr [] | Some v \<Rightarrow> v)) (\<lambda>shown.
     print_line stdout (atom_line py_str sensitivity category shown)))))"

fun log_atoms :: "(ustr \<Rightarrow> ustr option) \<Rightarrow> (json \<Rightarrow> ustr) \<Rightarrow> json list \<Rightarrow> exn + unit" where
  "log_atoms stdout py_str [] = Inr ()"
| "log_atoms stdout py_str (p # ps) =
     and_then (log_atom stdout py_str p) (\<lambda>_. log_atoms stdout py_str ps)"

text \<open>
  Lines 168 to 172: \<^verbatim>\<open>len(policies)\<close> for the first line printed, then the loop.
\<close>

definition log_policies :: "(ustr \<Rightarrow> ustr option) \<Rightarrow> (json \<Rightarrow> ustr) \<Rightarrow> json \<Rightarrow> exn + unit" where
  "log_policies stdout py_str policies =
     and_then (py_len policies) (\<lambda>n.
     and_then (iterate policies) (\<lambda>ps.
     log_atoms stdout py_str ps))"

text \<open>
  The \<^verbatim>\<open>try\<close> block after the upstream call has returned or raised: the first text of
  the reply, the print of line 153, fence-stripping and parsing, the logging, and the
  value handed to \<^verbatim>\<open>jsonify\<close>.
\<close>

definition try_block ::
  "(ustr \<Rightarrow> ustr option) \<Rightarrow> (json \<Rightarrow> ustr) \<Rightarrow> (ustr \<Rightarrow> exn + json) \<Rightarrow> outcome \<Rightarrow> exn + json" where
  "try_block stdout py_str loads reply =
     (case reply of
        Raises e \<Rightarrow> Inl e
      | Message blocks \<Rightarrow>
          and_then (first_text blocks) (\<lambda>response_text.
          and_then (print_line stdout (raw_response_line response_text)) (\<lambda>_.
          and_then (parse_reply loads response_text) (\<lambda>policies.
          and_then (log_policies stdout py_str policies) (\<lambda>_.
          Inr policies)))))"

text \<open>The three \<^verbatim>\<open>except\<close> clauses (lines 176 to 184), tried in this order.\<close>

fun except_clauses :: "exn \<Rightarrow> response" where
  "except_clauses (APIError m) = jsonify_error (u ''Claude API error: '' @ m) 500"
| "except_clauses (JSONDecodeError m) =
     jsonify_error (u ''Failed to parse Claude response as JSON: '' @ m) 500"
| "except_clauses e = jsonify_error (str_exn e) 500"

subsection \<open>The handler\<close>

text \<open>
  \<open>process environ stdout py_str loads create data\<close> is the response for the request
  body \<open>data\<close> (the value of \<^verbatim>\<open>request.get_json(force=True)\<close>), together with the
  upstream calls made, in order. \<open>create\<close> is the upstream service: what it answers to a
  call.
\<close>

definition process ::
  "ustr option \<Rightarrow> (ustr \<Rightarrow> ustr option) \<Rightarrow> (json \<Rightarrow> ustr) \<Rightarrow> (ustr \<Rightarrow> exn + json) \<Rightarrow>
     (upstream_call \<Rightarrow> outcome) \<Rightarrow> json \<Rightarrow> response \<times> upstream_call list" where
  "process environ stdout py_str loads create data =
     (case field_text data ''policy_text'' of
        Inl e \<Rightarrow> (Unhandled e, [])
      | Inr policy_text \<Rightarrow>
          (case field_text data ''api_key'' of
             Inl e \<Rightarrow> (Unhandled e, [])
           | Inr k \<Rightarrow>
               (let key = resolve_api_key environ k in
                if key = [] then (jsonify_error (u ''No Anthropic API key provided.'') 400, [])
                else if policy_text = [] then
                  (jsonify_error (u ''No policy text provided.'') 400, [])
                else
                  (case try_block stdout py_str loads (create (create_call key policy_text)) of
                     Inl e \<Rightarrow> (except_clauses e, [create_call key policy_text])
                   | Inr policies \<Rightarrow>
                       (jsonify_policies policies, [create_call key policy_text])))))"

section \<open>Sample inputs\<close>

text \<open>
  A text between fences as a model writes it: the opening fence with its language tag on a
  line of its own, the text, and the closing fence on a line of its own.
\<close>

definition fenced :: "ustr \<Rightarrow> ustr \<Rightarrow> ustr" where
  "fenced tag text = fence @ tag @ [newline] @ text @ [newline] @ fence"

text \<open>The request body \<^verbatim>\<open>{"policy_text": ..., "api_key": ...}\<close>.\<close>

definition request :: "ustr \<Rightarrow> ustr \<Rightarrow> json" where
  "request policy_text key = JObj [(u ''policy_text'', JStr policy_text), (u ''api_key'', JStr key)]"

text \<open>An upstream service that answers every call with one text block.\<close>

definition replies :: "ustr \<Rightarrow> upstream_call \<Rightarrow> outcome" where
  "replies text call = Message [TextBlock text]"

text \<open>
  \<^verbatim>\<open>json.loads\<close> on the few texts the instances below use (\<^verbatim>\<open>NaN\<close> is accepted by
  \<^verbatim>\<open>json.loads\<close> and gives the float of that name). A text outside the table
  gets the diagnostic \<^verbatim>\<open>json.loads\<close> gives for a text that does not begin with a JSON
  value (as \<^verbatim>\<open>not json\<close>); the instances use no other text.
\<close>

definition sample_values :: "(ustr \<times> json) list" where
  \<open>sample_values =
    [(u ''[]'', JArr []),
     (u ''{}'', JObj []),
     (u ''""'', JStr []),
     (u ''NaN'', JFloat 0x7FF8000000000000),
     (u ''{"policies":[]}'', JObj [(u ''policies'', JArr [])]),
     (u ''{"policies":[{"category":"pet_policy"}]}'',
        JObj [(u ''policies'', JArr [JObj [(u ''category'', JStr (u ''pet_policy''))]])]),
     (u ''{"policies":[{"display_text":5}]}'',
        JObj [(u ''policies'', JArr [JObj [(u ''display_text'', JInt 5)]])])]\<close>

definition sample_loads :: "ustr \<Rightarrow> exn + json" where
  "sample_loads text =
     (case map_of sample_values text of
        Some v \<Rightarrow> Inr v
      | None \<Rightarrow> Inl (JSONDecodeError (u ''Expecting value: line 1 column 1 (char 0)'')))"

text \<open>
  A standard output encoded in UTF-8 with the error handler \<^verbatim>\<open>strict\<close>: it encodes every
  text but one with a surrogate (U+D800 to U+DFFF), for which the message names the first
  run of surrogates, as \<^verbatim>\<open>'utf-8' codec can't encode character '\ud800' in position 31:
  surrogates not allowed\<close>.
\<close>

definition is_surrogate :: "nat \<Rightarrow> bool" where
  "is_surrogate c \<longleftrightarrow> 55296 \<le> c \<and> c \<le> 57343"

definition hex_digit :: "nat \<Rightarrow> nat" where
  "hex_digit d = (if d < 10 then 48 + d else 87 + d)"

definition hex4 :: "nat \<Rightarrow> ustr" where
  "hex4 c = map hex_digit [c div 4096 mod 16, c div 256 mod 16, c div 16 mod 16, c mod 16]"

definition utf8_stdout :: "ustr \<Rightarrow> ustr option" where
  "utf8_stdout text =
     (let start = length (takeWhile (\<lambda>c. \<not> is_surrogate c) text);
          run = length (takeWhile is_surrogate (drop start text))
      in if run = 0 then None
         else Some (quoted (u ''utf-8'') @ u '' codec can'' @ [39] @ u ''t encode '' @
           (if run = 1 then
              u ''character '' @ quoted ([92, 117] @ hex4 (text ! start)) @
              u '' in position '' @ decimal start
            else
              u ''characters in position '' @ decimal start @ [45] @ decimal (start + run - 1)) @
           u '': surrogates not allowed''))"

text \<open>
  \<^verbatim>\<open>str\<close> on the values without parts; the instances below print no float, list or dict.
\<close>

definition sample_str :: "json \<Rightarrow> ustr" where
  "sample_str v =
     (case v of
        JNull \<Rightarrow> u ''None''
      | JBool b \<Rightarrow> (if b then u ''True'' else u ''False'')
      | JInt i \<Rightarrow> (if i < 0 then [45] @ decimal (nat (- i)) else decimal (nat i))
      | JStr s \<Rightarrow> s
      | _ \<Rightarrow> [])"

section \<open>Facts about the string methods\<close>

lemma isspace_newline: "isspace newline"
  by (simp add: isspace_def newline_def)

lemma strip_Nil: "strip [] = []"
  by (simp add: strip_def)

lemma strip_fixed:
  assumes "s \<noteq> []" "\<not> isspace (hd s)" "\<not> isspace (last s)"
  shows "strip s = s"
proof -
  from assms(1,2) have l: "dropWhile isspace s = s"
    by (cases s) simp_all
  from assms(1,3) have "rev s \<noteq> []" "\<not> isspace (hd (rev s))"
    by (simp_all add: hd_rev)
  then have r: "dropWhile isspace (rev s) = rev s"
    by (cases "rev s") simp_all
  show ?thesis by (simp add: strip_def l r)
qed

lemma strip_ends:
  assumes "strip s \<noteq> []"
  shows "\<not> isspace (hd (strip s)) \<and> \<not> isspace (last (strip s))"
proof -
  let ?l = "dropWhile isspace s"
  let ?r = "dropWhile isspace (rev ?l)"
  from assms have rne: "?r \<noteq> []" by (simp add: strip_def)
  then have a: "\<not> isspace (hd ?r)" by (rule hd_dropWhile)
  have last: "last (strip s) = hd ?r" using rne by (simp add: strip_def last_rev)
  have lne: "?l \<noteq> []"
  proof
    assume "?l = []"
    then have "?r = []" by (simp only: rev.simps dropWhile.simps)
    with rne show False by simp
  qed
  then have b: "\<not> isspace (hd ?l)" by (rule hd_dropWhile)
  have "?l = rev ?r @ rev (takeWhile isspace (rev ?l))"
    by (metis rev_append rev_rev_ident takeWhile_dropWhile_id)
  then have "hd ?l = hd (rev ?r)" using rne by (metis hd_append2 rev_is_Nil_conv)
  then have "hd (strip s) = hd ?l" by (simp add: strip_def)
  with a b last show ?thesis by simp
qed

lemma strip_idem: "strip (strip s) = strip s"
proof (cases "strip s = []")
  case True then show ?thesis by (simp add: strip_Nil)
next
  case False then show ?thesis using strip_ends [OF False] by (simp add: strip_fixed)
qed

lemma strip_append_space:
  assumes "isspace c" shows "strip (s @ [c]) = strip s"
proof (cases "\<forall>x\<in>set s. isspace x")
  case True
  then have a: "dropWhile isspace (s @ [c]) = []" and b: "dropWhile isspace s = []"
    using assms by (simp_all add: dropWhile_eq_Nil_conv)
  show ?thesis by (simp only: strip_def a b)
next
  case False
  then have "dropWhile isspace (s @ [c]) = dropWhile isspace s @ [c]"
    by auto
  then show ?thesis using assms by (simp add: strip_def)
qed

section \<open>Facts about the handler\<close>

lemma field_text_JObj:
  "or_empty (map_of kvs (u key)) = JStr s \<Longrightarrow> field_text (JObj kvs) key = Inr (strip s)"
  by (simp add: field_text_def and_then_def dict_get_def strip_method_def)

lemma process_typed:
  assumes "or_empty (map_of kvs (u ''policy_text'')) = JStr p"
    and "or_empty (map_of kvs (u ''api_key'')) = JStr a"
  shows "process environ stdout py_str loads create (JObj kvs) =
     (if resolve_api_key environ (strip a) = [] then
        (jsonify_error (u ''No Anthropic API key provided.'') 400, [])
      else if strip p = [] then (jsonify_error (u ''No policy text provided.'') 400, [])
      else
        (case try_block stdout py_str loads (create (create_call (resolve_api_key environ (strip a)) (strip p))) of
           Inl e \<Rightarrow> (except_clauses e, [create_call (resolve_api_key environ (strip a)) (strip p)])
         | Inr policies \<Rightarrow>
             (jsonify_policies policies,
              [create_call (resolve_api_key environ (strip a)) (strip p)])))"
  by (simp add: process_def field_text_JObj [OF assms(1)] field_text_JObj [OF assms(2)] Let_def)

lemma process_called:
  assumes "or_empty (map_of kvs (u ''policy_text'')) = JStr p"
    and "or_empty (map_of kvs (u ''api_key'')) = JStr a"
    and "resolve_api_key environ (strip a) = key" and "key \<noteq> []" and "strip p \<noteq> []"
  shows "process environ stdout py_str loads create (JObj kvs) =
     (case try_block stdout py_str loads (create (create_call key (strip p))) of
        Inl e \<Rightarrow> (except_clauses e, [create_call key (strip p)])
      | Inr policies \<Rightarrow> (jsonify_policies policies, [create_call key (strip p)]))"
  using assms(4,5) unfolding assms(3) [symmetric]
  by (simp add: process_typed [OF assms(1,2)])

lemma try_block_text:
  "try_block stdout py_str loads (Message (TextBlock reply # rest)) =
     and_then (print_line stdout (raw_response_line reply)) (\<lambda>_.
     and_then (parse_reply loads reply) (\<lambda>policies.
     and_then (log_policies stdout py_str policies) (\<lambda>_. Inr policies)))"
  by (simp add: try_block_def first_text_def and_then_def)

lemma try_block_printed:
  assumes "stdout (raw_response_line reply) = None"
  shows "try_block stdout py_str loads (Message (TextBlock reply # rest)) =
     and_then (parse_reply loads reply) (\<lambda>policies.
     and_then (log_policies stdout py_str policies) (\<lambda>_. Inr policies))"
  by (simp add: try_block_text print_line_def assms and_then_def)

lemma decimal_digits: "c \<in> set (decimal n) \<Longrightarrow> 48 \<le> c \<and> c \<le> 57"
proof (induction n rule: decimal.induct)
  case (1 n)
  show ?case
  proof (cases "n < 10")
    case True
    with "1.prems" show ?thesis by (simp add: decimal.simps [of n])
  next
    case False
    with "1.prems" have "c \<in> set (decimal (n div 10)) \<or> c = 48 + n mod 10"
      by (auto simp: decimal.simps [of n])
    with "1.IH" False show ?thesis by auto
  qed
qed

lemma utf8_stdout_writes:
  assumes "\<forall>c\<in>set text. \<not> is_surrogate c"
  shows "utf8_stdout text = None"
proof -
  from assms have tw: "takeWhile (\<lambda>c. \<not> is_surrogate c) text = text"
    by (simp add: takeWhile_eq_all_conv)
  show ?thesis by (simp add: utf8_stdout_def Let_def tw)
qed

lemma utf8_stdout_one_surrogate:
  assumes "\<forall>x\<in>set pre. \<not> is_surrogate x" and "is_surrogate c"
    and "post = [] \<or> \<not> is_surrogate (hd post)"
  shows "utf8_stdout (pre @ c # post) =
     Some (quoted (u ''utf-8'') @ u '' codec can'' @ [39] @ u ''t encode character '' @
           quoted ([92, 117] @ hex4 c) @ u '' in position '' @ decimal (length pre) @
           u '': surrogates not allowed'')"
proof -
  have tw: "takeWhile (\<lambda>x. \<not> is_surrogate x) (pre @ c # post) = pre"
    using assms(1,2) by (simp add: takeWhile_tail)
  have run: "takeWhile is_surrogate (c # post) = [c]"
    using assms(2,3) by (cases post) auto
  show ?thesis
    by (simp add: utf8_stdout_def Let_def tw run u_def del: takeWhile.simps)
qed

lemma utf8_stdout_raw_response_line:
  assumes "\<forall>c\<in>set reply. \<not> is_surrogate c"
  shows "utf8_stdout (raw_response_line reply) = None"
proof (rule utf8_stdout_writes, rule ballI)
  fix c assume "c \<in> set (raw_response_line reply)"
  then consider "c \<in> set (u ''Raw response ('')" | "c \<in> set (decimal (length reply))"
    | "c \<in> set (u '' chars): '')" | "c \<in> set (take 200 reply)"
    by (auto simp: raw_response_line_def)
  then show "\<not> is_surrogate c"
  proof cases
    case 1 then show ?thesis by (auto simp: u_def is_surrogate_def)
  next
    case 2 then show ?thesis using decimal_digits [of c] by (auto simp: is_surrogate_def)
  next
    case 3 then show ?thesis by (auto simp: u_def is_surrogate_def)
  next
    case 4 then show ?thesis using assms by (auto dest: in_set_takeD)
  qed
qed

lemma strip_fences_no_newline:
  assumes "startswith (strip reply) fence" and "newline \<notin> set (strip reply)"
  shows "strip_fences reply = Inl (ValueError (u ''substring not found''))"
  using assms by (simp add: strip_fences_def strip_opening_fence_def index_def)

lemma u_Cons_neq: "of_char c \<noteq> (of_char d :: nat) \<Longrightarrow> u (c # cs) \<noteq> u (d # ds) @ m"
  by (simp add: u_def)

lemma startswith_fence_append: "startswith (fence @ s) fence"
  by (simp add: startswith_def fence_def)

lemma endswith_append_fence: "endswith (s @ fence) fence"
  by (simp add: endswith_def fence_def)

lemma strip_fenced: "strip (fenced tag text) = fenced tag text"
proof (rule strip_fixed)
  show "fenced tag text \<noteq> []" by (simp add: fenced_def fence_def)
  show "\<not> isspace (hd (fenced tag text))" by (simp add: fenced_def fence_def isspace_def)
  show "\<not> isspace (last (fenced tag text))" by (simp add: fenced_def fence_def isspace_def)
qed

lemma strip_fences_fenced:
  assumes "newline \<notin> set tag"
  shows "strip_fences (fenced tag text) = Inr (strip text)"
proof -
  have nf: "newline \<notin> set fence" by (simp add: fence_def newline_def)
  have sp: "fenced tag text = (fence @ tag) @ newline # (text @ newline # fence)"
    by (simp add: fenced_def)
  have "takeWhile (\<lambda>x. x \<noteq> newline) (fenced tag text) =
      takeWhile (\<lambda>x. x \<noteq> newline) (fence @ tag)"
    unfolding sp by (rule takeWhile_tail) simp
  also have "\<dots> = fence @ tag"
    using assms nf by (auto simp: takeWhile_eq_all_conv)
  finally have tw: "takeWhile (\<lambda>x. x \<noteq> newline) (fenced tag text) = fence @ tag" .
  have ix: "index (fenced tag text) newline = Inr (length fence + length tag)"
    using tw by (simp add: index_def fenced_def)
  have dr: "drop (length fence + length tag + 1) (fenced tag text) = text @ newline # fence"
    by (simp add: fenced_def)
  have op: "strip_opening_fence (fenced tag text) = Inr (text @ newline # fence)"
    using dr by (simp add: strip_opening_fence_def ix) (simp add: fenced_def startswith_fence_append)
  have ew: "endswith (text @ newline # fence) fence"
    using endswith_append_fence [of "text @ [newline]"] by simp
  have cl: "strip_closing_fence (text @ newline # fence) = text @ [newline]"
    using ew by (simp add: strip_closing_fence_def fence_def)
  show ?thesis
    by (simp add: strip_fences_def strip_fenced op cl strip_append_space [OF isspace_newline])
qed

lemma strip_fences_unfenced:
  assumes "\<not> startswith (strip text) fence" and "\<not> endswith (strip text) fence"
  shows "strip_fences text = Inr (strip text)"
  using assms
  by (simp add: strip_fences_def strip_opening_fence_def strip_closing_fence_def strip_idem)

lemma strip_fences_stripped:
  assumes "strip_fences text = Inr cleaned"
  shows "strip cleaned = cleaned"
  using assms
  by (auto simp: strip_fences_def strip_idem split: sum.splits)





section \<open>The claims\<close>

text \<open>
  In the theorems below a request is a JSON object \<open>JObj kvs\<close> whose \<^verbatim>\<open>policy_text\<close> and
  \<^verbatim>\<open>api_key\<close> are strings once \<^verbatim>\<open>or ''\<close> has replaced an absent or false value: this is
  the request of the interface, \<^verbatim>\<open>{"policy_text": string, "api_key"?: string}\<close>.
\<close>

text \<open>
  C10 says this of every reply whose trimmed text starts with three backticks and has no
  newline. Line 153 prints the reply inside the \<^verbatim>\<open>try\<close> block, before the fences are
  looked at: for the reply \<^verbatim>\<open>```json\<close> followed by the lone surrogate U+D800, on a
  standard output in UTF-8, the print raises \<^verbatim>\<open>UnicodeEncodeError\<close>, the search for the
  newline is never reached, and the catch-all clause answers with the text of that
  exception instead of \<^verbatim>\<open>substring not found\<close>.
\<close>

theorem fence_without_newline_counterexample:
  "startswith (strip (u ''```json'' @ [55296])) fence \<and>
   newline \<notin> set (strip (u ''```json'' @ [55296])) \<and>
   process None utf8_stdout sample_str sample_loads (replies (u ''```json'' @ [55296]))
       (request (u ''No pets.'') (u ''sk-1'')) =
     (Response 500 (JObj [(u ''error'',
        JStr (quoted (u ''utf-8'') @ u '' codec can'' @ [39] @ u ''t encode character '' @
              quoted ([92, 117] @ u ''d800'') @
              u '' in position 31: surrogates not allowed''))]),
      [create_call (u ''sk-1'') (u ''No pets.'')])"
proof -
  let ?kvs = "[(u ''policy_text'', JStr (u ''No pets.'')), (u ''api_key'', JStr (u ''sk-1''))]"
  let ?msg = "quoted (u ''utf-8'') @ u '' codec can'' @ [39] @ u ''t encode character '' @
      quoted ([92, 117] @ u ''d800'') @ u '' in position 31: surrogates not allowed''"
  have h1: "or_empty (map_of ?kvs (u ''policy_text'')) = JStr (u ''No pets.'')"
    by (simp add: or_empty_def u_def)
  have h2: "or_empty (map_of ?kvs (u ''api_key'')) = JStr (u ''sk-1'')"
    by (simp add: or_empty_def u_def)
  have h3: "resolve_api_key None (strip (u ''sk-1'')) = u ''sk-1''"
    by (simp add: resolve_api_key_def strip_def isspace_def u_def)
  have h4: "u ''sk-1'' \<noteq> []" by (simp add: u_def)
  have s: "strip (u ''No pets.'') = u ''No pets.''" by (simp add: strip_def isspace_def u_def)
  have h5: "strip (u ''No pets.'') \<noteq> []" unfolding s by (simp add: u_def)
  have r: "strip (u ''```json'' @ [55296]) = u ''```json'' @ [55296]"
    by (simp add: strip_def isspace_def u_def)
  have f1: "startswith (strip (u ''```json'' @ [55296])) fence"
    unfolding r by (simp add: startswith_def fence_def u_def)
  have f2: "newline \<notin> set (strip (u ''```json'' @ [55296]))"
    unfolding r by (simp add: newline_def u_def)
  have out: "utf8_stdout (raw_response_line (u ''```json'' @ [55296])) = Some ?msg"
  proof -
    have len: "length (u ''```json'' @ [55296]) = 8" by (simp add: u_def)
    have d8: "decimal 8 = u ''8''" by (simp add: u_def decimal.simps [of 8])
    have line: "raw_response_line (u ''```json'' @ [55296]) =
        u ''Raw response (8 chars): ```json'' @ 55296 # []"
      unfolding raw_response_line_def len d8 by (simp add: u_def)
    have pos: "length (u ''Raw response (8 chars): ```json'') = 31" by (simp add: u_def)
    have d31: "decimal 31 = u ''31''"
      by (simp add: u_def decimal.simps [of 31] decimal.simps [of 3])
    have hx: "hex4 55296 = u ''d800''" by (simp add: hex4_def hex_digit_def u_def)
    have "utf8_stdout (u ''Raw response (8 chars): ```json'' @ 55296 # []) =
       Some (quoted (u ''utf-8'') @ u '' codec can'' @ [39] @ u ''t encode character '' @
             quoted ([92, 117] @ hex4 55296) @ u '' in position '' @
             decimal (length (u ''Raw response (8 chars): ```json'')) @
             u '': surrogates not allowed'')"
      by (rule utf8_stdout_one_surrogate) (simp_all add: u_def is_surrogate_def)
    then show ?thesis unfolding line pos d31 hx by (simp add: u_def)
  qed
  have "try_block utf8_stdout sample_str sample_loads
      (replies (u ''```json'' @ [55296]) (create_call (u ''sk-1'') (strip (u ''No pets.'')))) =
      Inl (UnicodeEncodeError ?msg)"
    by (simp add: replies_def try_block_text print_line_def out and_then_def)
  then have "process None utf8_stdout sample_str sample_loads (replies (u ''```json'' @ [55296]))
      (request (u ''No pets.'') (u ''sk-1'')) =
      (Response 500 (JObj [(u ''error'', JStr ?msg)]), [create_call (u ''sk-1'') (u ''No pets.'')])"
    by (simp add: request_def process_called [OF h1 h2 h3 h4 h5] jsonify_error_def s)
  with f1 f2 show ?thesis by (intro conjI)
qed

text \<open>
  C10, amended. When the trimmed reply starts with three backticks and has no newline,
  and standard output can write the line printed at line 153,
  \<^verbatim>\<open>cleaned.index('\n')\<close> raises \<^verbatim>\<open>ValueError('substring not found')\<close>; the handler
  answers with status 500 and that string as the error, which is the catch-all clause
  and not the message of the JSON clause. One upstream call has been made.
\<close>

theorem fence_without_newline_is_internal_error:
  assumes "or_empty (map_of kvs (u ''policy_text'')) = JStr p"
    and "or_empty (map_of kvs (u ''api_key'')) = JStr a"
    and "resolve_api_key environ (strip a) = key" and "key \<noteq> []" and "strip p \<noteq> []"
    and "create (create_call key (strip p)) = Message (TextBlock reply # rest)"
    and "startswith (strip reply) fence" and "newline \<notin> set (strip reply)"
    and "stdout (raw_response_line reply) = None"
  shows "strip_fences reply = Inl (ValueError (u ''substring not found'')) \<and>
         process environ stdout py_str loads create (JObj kvs) =
           (Response 500 (JObj [(u ''error'', JStr (u ''substring not found''))]),
            [create_call key (strip p)]) \<and>
         fst (process environ stdout py_str loads create (JObj kvs)) \<noteq>
           Response 500 (JObj [(u ''error'',
             JStr (u ''Failed to parse Claude response as JSON: '' @ diagnostic))])"
proof -
  have sf: "strip_fences reply = Inl (ValueError (u ''substring not found''))"
    using assms(7,8) by (rule strip_fences_no_newline)
  have tb: "try_block stdout py_str loads (create (create_call key (strip p))) =
      Inl (ValueError (u ''substring not found''))"
    by (simp add: assms(6) try_block_printed assms(9) parse_reply_def sf and_then_def)
  have pr: "process environ stdout py_str loads create (JObj kvs) =
      (Response 500 (JObj [(u ''error'', JStr (u ''substring not found''))]),
       [create_call key (strip p)])"
    by (simp add: process_called [OF assms(1-5)] tb jsonify_error_def)
  have ne: "u ''substring not found'' \<noteq> u ''Failed to parse Claude response as JSON: '' @ diagnostic"
    by (rule u_Cons_neq) simp
  show ?thesis using sf pr ne by simp
qed

theorem fence_without_newline_is_internal_error_witness:
  "or_empty (map_of [(u ''policy_text'', JStr (u ''No pets.'')), (u ''api_key'', JStr (u ''sk-1''))]
       (u ''policy_text'')) = JStr (u ''No pets.'') \<and>
   or_empty (map_of [(u ''policy_text'', JStr (u ''No pets.'')), (u ''api_key'', JStr (u ''sk-1''))]
       (u ''api_key'')) = JStr (u ''sk-1'') \<and>
   resolve_api_key None (strip (u ''sk-1'')) = u ''sk-1'' \<and> u ''sk-1'' \<noteq> [] \<and>
   strip (u ''No pets.'') \<noteq> [] \<and>
   replies (u ''```json'') (create_call (u ''sk-1'') (strip (u ''No pets.''))) =
     Message (TextBlock (u ''```json'') # []) \<and>
   startswith (strip (u ''```json'')) fence \<and> newline \<notin> set (strip (u ''```json'')) \<and>
   utf8_stdout (raw_response_line (u ''```json'')) = None \<and>
   process None utf8_stdout sample_str sample_loads (replies (u ''```json'')) (request (u ''No pets.'') (u ''sk-1'')) =
     (Response 500 (JObj [(u ''error'', JStr (u ''substring not found''))]),
      [create_call (u ''sk-1'') (strip (u ''No pets.''))])"
proof -
  let ?kvs = "[(u ''policy_text'', JStr (u ''No pets.'')), (u ''api_key'', JStr (u ''sk-1''))]"
  have h1: "or_empty (map_of ?kvs (u ''policy_text'')) = JStr (u ''No pets.'')"
    by (simp add: or_empty_def u_def)
  have h2: "or_empty (map_of ?kvs (u ''api_key'')) = JStr (u ''sk-1'')"
    by (simp add: or_empty_def u_def)
  have h3: "resolve_api_key None (strip (u ''sk-1'')) = u ''sk-1''"
    by (simp add: resolve_api_key_def strip_def isspace_def u_def)
  have h4: "u ''sk-1'' \<noteq> []" by (simp add: u_def)
  have h5: "strip (u ''No pets.'') \<noteq> []" by (simp add: strip_def isspace_def u_def)
  have h6: "replies (u ''```json'') (create_call (u ''sk-1'') (strip (u ''No pets.''))) =
     Message (TextBlock (u ''```json'') # [])" by (simp add: replies_def)
  have h7: "startswith (strip (u ''```json'')) fence"
    by (simp add: startswith_def fence_def strip_def isspace_def u_def)
  have h8: "newline \<notin> set (strip (u ''```json''))"
    by (simp add: newline_def strip_def isspace_def u_def)
  have h9: "utf8_stdout (raw_response_line (u ''```json'')) = None"
    by (rule utf8_stdout_raw_response_line) (simp add: u_def is_surrogate_def)
  show ?thesis
    using fence_without_newline_is_internal_error
      [where create = "replies (u ''```json'')" and loads = sample_loads
         and stdout = utf8_stdout and py_str = sample_str,
        OF h1 h2 h3 h4 h5 h6 h7 h8 h9]
      h1 h2 h3 h4 h5 h6 h7 h8 h9
    by (simp add: request_def)
qed

text \<open>
  C3. A request whose policy text is empty or only whitespace, with a key available from
  the request or from the environment, is answered with status 400 and the message
  \<^verbatim>\<open>No policy text provided.\<close>, and no upstream call is made.
\<close>

theorem blank_policy_text_is_rejected_before_any_call:
  assumes "or_empty (map_of kvs (u ''policy_text'')) = JStr p" and "strip p = []"
    and "or_empty (map_of kvs (u ''api_key'')) = JStr a"
    and "strip a \<noteq> [] \<or> environ = Some e \<and> e \<noteq> []"
  shows "process environ stdout py_str loads create (JObj kvs) =
           (Response 400 (JObj [(u ''error'', JStr (u ''No policy text provided.''))]), [])"
proof -
  have "resolve_api_key environ (strip a) \<noteq> []"
    using assms(4) by (auto simp: resolve_api_key_def environ_get_def)
  then show ?thesis
    using assms(2) by (simp add: process_typed [OF assms(1,3)] jsonify_error_def)
qed

theorem blank_policy_text_is_rejected_before_any_call_witness:
  "or_empty (map_of [(u ''policy_text'', JStr [32, 9, 160, 10])] (u ''policy_text'')) =
     JStr [32, 9, 160, 10] \<and>
   strip [32, 9, 160, 10] = [] \<and>
   or_empty (map_of [(u ''policy_text'', JStr [32, 9, 160, 10])] (u ''api_key'')) = JStr [] \<and>
   u ''sk-env'' \<noteq> [] \<and>
   process (Some (u ''sk-env'')) utf8_stdout sample_str sample_loads (replies (u ''[]''))
       (JObj [(u ''policy_text'', JStr [32, 9, 160, 10])]) =
     (Response 400 (JObj [(u ''error'', JStr (u ''No policy text provided.''))]), [])"
proof -
  let ?kvs = "[(u ''policy_text'', JStr [32, 9, 160, 10])]"
  have h1: "or_empty (map_of ?kvs (u ''policy_text'')) = JStr [32, 9, 160, 10]"
    by (simp add: or_empty_def)
  have h2: "strip [32, 9, 160, 10] = []" by (simp add: strip_def isspace_def)
  have h3: "or_empty (map_of ?kvs (u ''api_key'')) = JStr []"
    by (simp add: or_empty_def u_def)
  have h4: "strip [] \<noteq> [] \<or> Some (u ''sk-env'') = Some (u ''sk-env'') \<and> u ''sk-env'' \<noteq> []"
    by (simp add: u_def)
  show ?thesis
    using blank_policy_text_is_rejected_before_any_call
      [where stdout = utf8_stdout and py_str = sample_str and loads = sample_loads and create = "replies (u ''[]'')", OF h1 h2 h3 h4]
      h1 h2 h3
    by (simp add: u_def)
qed

text \<open>
  C2 says that a blank policy text with a key available gives the success response with
  an empty policies array. The handler answers it with status 400 (line 137): here for
  the text of three spaces.
\<close>

theorem blank_policy_text_success_counterexample:
  "fst (process None utf8_stdout sample_str sample_loads (replies (u ''{\"policies\":[]}''))
          (request (u ''   '') (u ''sk-1''))) =
     Response 400 (JObj [(u ''error'', JStr (u ''No policy text provided.''))]) \<and>
   fst (process None utf8_stdout sample_str sample_loads (replies (u ''{\"policies\":[]}''))
          (request (u ''   '') (u ''sk-1''))) \<noteq>
     Response 200 (JObj [(u ''policies'', JArr [])])"
proof -
  let ?kvs = "[(u ''policy_text'', JStr (u ''   '')), (u ''api_key'', JStr (u ''sk-1''))]"
  have h1: "or_empty (map_of ?kvs (u ''policy_text'')) = JStr (u ''   '')"
    by (simp add: or_empty_def u_def)
  have h2: "or_empty (map_of ?kvs (u ''api_key'')) = JStr (u ''sk-1'')"
    by (simp add: or_empty_def u_def)
  have h3: "strip (u ''   '') = []" by (simp add: strip_def isspace_def u_def)
  have h4: "resolve_api_key None (strip (u ''sk-1'')) \<noteq> []"
    by (simp add: resolve_api_key_def strip_def isspace_def u_def)
  show ?thesis
    by (simp add: request_def process_typed [OF h1 h2] h3 h4 jsonify_error_def)
qed

text \<open>
  C2, amended. A request whose policy text is blank, with a key available, is answered
  with status 400 and the error \<^verbatim>\<open>No policy text provided.\<close>; the response is not a
  success response and carries no policies array.
\<close>

theorem blank_policy_text_gives_error_response:
  assumes "or_empty (map_of kvs (u ''policy_text'')) = JStr p" and "strip p = []"
    and "or_empty (map_of kvs (u ''api_key'')) = JStr a"
    and "resolve_api_key environ (strip a) \<noteq> []"
  shows "fst (process environ stdout py_str loads create (JObj kvs)) =
           Response 400 (JObj [(u ''error'', JStr (u ''No policy text provided.''))]) \<and>
         fst (process environ stdout py_str loads create (JObj kvs)) \<noteq>
           Response 200 (JObj [(u ''policies'', policies)])"
  using assms(2,4) by (simp add: process_typed [OF assms(1,3)] jsonify_error_def)

theorem blank_policy_text_gives_error_response_witness:
  "or_empty (map_of [(u ''policy_text'', JStr []), (u ''api_key'', JStr (u ''sk-1''))]
       (u ''policy_text'')) = JStr [] \<and>
   strip [] = [] \<and>
   or_empty (map_of [(u ''policy_text'', JStr []), (u ''api_key'', JStr (u ''sk-1''))]
       (u ''api_key'')) = JStr (u ''sk-1'') \<and>
   resolve_api_key None (strip (u ''sk-1'')) \<noteq> [] \<and>
   fst (process None utf8_stdout sample_str sample_loads (replies (u ''[]'')) (request [] (u ''sk-1''))) =
     Response 400 (JObj [(u ''error'', JStr (u ''No policy text provided.''))]) \<and>
   fst (process None utf8_stdout sample_str sample_loads (replies (u ''[]'')) (request [] (u ''sk-1''))) \<noteq>
     Response 200 (JObj [(u ''policies'', JArr [])])"
proof -
  let ?kvs = "[(u ''policy_text'', JStr []), (u ''api_key'', JStr (u ''sk-1''))]"
  have h1: "or_empty (map_of ?kvs (u ''policy_text'')) = JStr []"
    by (simp add: or_empty_def)
  have h2: "strip [] = []" by (rule strip_Nil)
  have h3: "or_empty (map_of ?kvs (u ''api_key'')) = JStr (u ''sk-1'')"
    by (simp add: or_empty_def u_def)
  have h4: "resolve_api_key None (strip (u ''sk-1'')) \<noteq> []"
    by (simp add: resolve_api_key_def strip_def isspace_def u_def)
  show ?thesis
    using blank_policy_text_gives_error_response
      [where stdout = utf8_stdout and py_str = sample_str and loads = sample_loads and create = "replies (u ''[]'')" and policies = "JArr []",
        OF h1 h2 h3 h4]
      h1 h2 h3 h4
    by (simp add: request_def)
qed



text \<open>
  C8. A request that passes validation (a key is available and the policy text is not
  blank) causes exactly one upstream call, whatever the service answers: with the system
  prompt constant, the single user message \<^verbatim>\<open>Policy text:\n"""<trimmed policy_text>"""\<close>,
  the model \<^verbatim>\<open>claude-sonnet-4-20250514\<close>, temperature 0.2 and at most 4096 tokens.
\<close>

theorem exactly_one_upstream_call:
  assumes "or_empty (map_of kvs (u ''policy_text'')) = JStr p"
    and "or_empty (map_of kvs (u ''api_key'')) = JStr a"
    and "resolve_api_key environ (strip a) = key" and "key \<noteq> []" and "strip p \<noteq> []"
  shows \<open>snd (process environ stdout py_str loads create (JObj kvs)) =
           [\<lparr>api_key = key,
             model = u ''claude-sonnet-4-20250514'',
             max_tokens = 4096,
             temperature = 0.2,
             system = SYSTEM_PROMPT,
             messages =
               [\<lparr>role = u ''user'',
                 content = u ''Policy text:'' @ [10] @ u ''"""'' @ strip p @ u ''"""''\<rparr>]\<rparr>]\<close>
  by (simp add: process_called [OF assms] create_call_def user_message_def newline_def
      split: sum.split)

theorem exactly_one_upstream_call_witness:
  \<open>or_empty (map_of [(u ''policy_text'', JStr (u '' No pets. '')), (u ''api_key'', JStr (u ''sk-1''))]
       (u ''policy_text'')) = JStr (u '' No pets. '') \<and>
   or_empty (map_of [(u ''policy_text'', JStr (u '' No pets. '')), (u ''api_key'', JStr (u ''sk-1''))]
       (u ''api_key'')) = JStr (u ''sk-1'') \<and>
   resolve_api_key None (strip (u ''sk-1'')) = u ''sk-1'' \<and> u ''sk-1'' \<noteq> [] \<and>
   strip (u '' No pets. '') \<noteq> [] \<and>
   snd (process None utf8_stdout sample_str sample_loads (replies (u ''[]'')) (request (u '' No pets. '') (u ''sk-1''))) =
     [\<lparr>api_key = u ''sk-1'',
       model = u ''claude-sonnet-4-20250514'',
       max_tokens = 4096,
       temperature = 0.2,
       system = SYSTEM_PROMPT,
       messages =
         [\<lparr>role = u ''user'',
           content = u ''Policy text:'' @ [10] @ u ''"""'' @ u ''No pets.'' @ u ''"""''\<rparr>]\<rparr>]\<close>
proof -
  let ?kvs = "[(u ''policy_text'', JStr (u '' No pets. '')), (u ''api_key'', JStr (u ''sk-1''))]"
  have h1: "or_empty (map_of ?kvs (u ''policy_text'')) = JStr (u '' No pets. '')"
    by (simp add: or_empty_def u_def)
  have h2: "or_empty (map_of ?kvs (u ''api_key'')) = JStr (u ''sk-1'')"
    by (simp add: or_empty_def u_def)
  have h3: "resolve_api_key None (strip (u ''sk-1'')) = u ''sk-1''"
    by (simp add: resolve_api_key_def strip_def isspace_def u_def)
  have h4: "u ''sk-1'' \<noteq> []" by (simp add: u_def)
  have s: "strip (u '' No pets. '') = u ''No pets.''"
    by (simp add: strip_def isspace_def u_def)
  have h5: "strip (u '' No pets. '') \<noteq> []" by (simp add: s) (simp add: u_def)
  show ?thesis
    using exactly_one_upstream_call
      [where stdout = utf8_stdout and py_str = sample_str and loads = sample_loads and create = "replies (u ''[]'')", OF h1 h2 h3 h4 h5]
      h1 h2 h3 h4 h5
    by (simp add: request_def s)
qed

text \<open>
  C5 says that every reply that is not a valid JSON value gets the message of the JSON
  clause. The handler leaves the decision to \<^verbatim>\<open>json.loads\<close> with its defaults, which
  accepts \<^verbatim>\<open>NaN\<close>, a text that is no JSON value: the parsed float has no length, and
  the catch-all clause answers with the \<^verbatim>\<open>TypeError\<close> of \<^verbatim>\<open>len(policies)\<close>.
\<close>

theorem invalid_json_counterexample:
  "process None utf8_stdout sample_str sample_loads (replies (u ''NaN''))
       (request (u ''No pets.'') (u ''sk-1'')) =
     (Response 500 (JObj [(u ''error'',
        JStr (u ''object of type '' @ quoted (u ''float'') @ u '' has no len()''))]),
      [create_call (u ''sk-1'') (u ''No pets.'')])"
proof -
  let ?kvs = "[(u ''policy_text'', JStr (u ''No pets.'')), (u ''api_key'', JStr (u ''sk-1''))]"
  have h1: "or_empty (map_of ?kvs (u ''policy_text'')) = JStr (u ''No pets.'')"
    by (simp add: or_empty_def u_def)
  have h2: "or_empty (map_of ?kvs (u ''api_key'')) = JStr (u ''sk-1'')"
    by (simp add: or_empty_def u_def)
  have h3: "resolve_api_key None (strip (u ''sk-1'')) = u ''sk-1''"
    by (simp add: resolve_api_key_def strip_def isspace_def u_def)
  have h4: "u ''sk-1'' \<noteq> []" by (simp add: u_def)
  have s: "strip (u ''No pets.'') = u ''No pets.''" by (simp add: strip_def isspace_def u_def)
  have h5: "strip (u ''No pets.'') \<noteq> []" unfolding s by (simp add: u_def)
  have out: "utf8_stdout (raw_response_line (u ''NaN'')) = None"
    by (rule utf8_stdout_raw_response_line) (simp add: u_def is_surrogate_def)
  have sf: "strip_fences (u ''NaN'') = Inr (u ''NaN'')"
    by (simp add: strip_fences_def strip_opening_fence_def strip_closing_fence_def
        startswith_def endswith_def fence_def strip_def isspace_def u_def)
  have ld: "sample_loads (u ''NaN'') = Inr (JFloat 0x7FF8000000000000)"
    by (simp add: sample_loads_def sample_values_def u_def)
  have pr: "parse_reply sample_loads (u ''NaN'') = Inr (JFloat 0x7FF8000000000000)"
    by (simp add: parse_reply_def sf ld policies_of_def and_then_def)
  have lg: "log_policies utf8_stdout sample_str (JFloat 0x7FF8000000000000) =
      Inl (TypeError (u ''object of type '' @ quoted (u ''float'') @ u '' has no len()''))"
    by (simp add: log_policies_def py_len_def and_then_def)
  have "try_block utf8_stdout sample_str sample_loads
      (replies (u ''NaN'') (create_call (u ''sk-1'') (strip (u ''No pets.'')))) =
      Inl (TypeError (u ''object of type '' @ quoted (u ''float'') @ u '' has no len()''))"
    by (simp add: replies_def try_block_printed out pr lg and_then_def)
  then show ?thesis
    by (simp add: request_def process_called [OF h1 h2 h3 h4 h5] jsonify_error_def s)
qed

text \<open>
  C5, amended. When standard output can write the line printed at line 153 and the reply,
  stripped of its fences, is a text on which \<^verbatim>\<open>json.loads\<close> raises
  \<^verbatim>\<open>JSONDecodeError\<close>, the handler answers with status 500 and the message
  \<^verbatim>\<open>Failed to parse Claude response as JSON: \<close> followed by the parser's diagnostic, and
  the upstream calls made are exactly the one call: nothing is retried.
\<close>

theorem invalid_json_is_parse_error:
  assumes "or_empty (map_of kvs (u ''policy_text'')) = JStr p"
    and "or_empty (map_of kvs (u ''api_key'')) = JStr a"
    and "resolve_api_key environ (strip a) = key" and "key \<noteq> []" and "strip p \<noteq> []"
    and "create (create_call key (strip p)) = Message (TextBlock reply # rest)"
    and "stdout (raw_response_line reply) = None"
    and "strip_fences reply = Inr cleaned"
    and "loads cleaned = Inl (JSONDecodeError diagnostic)"
  shows "process environ stdout py_str loads create (JObj kvs) =
           (Response 500 (JObj [(u ''error'',
              JStr (u ''Failed to parse Claude response as JSON: '' @ diagnostic))]),
            [create_call key (strip p)])"
proof -
  have "try_block stdout py_str loads (create (create_call key (strip p))) =
      Inl (JSONDecodeError diagnostic)"
    by (simp add: assms(6) try_block_printed assms(7) parse_reply_def assms(8,9)
        and_then_def)
  then show ?thesis
    by (simp add: process_called [OF assms(1-5)] jsonify_error_def)
qed

theorem invalid_json_is_parse_error_witness:
  "or_empty (map_of [(u ''policy_text'', JStr (u ''No pets.'')), (u ''api_key'', JStr (u ''sk-1''))]
       (u ''policy_text'')) = JStr (u ''No pets.'') \<and>
   or_empty (map_of [(u ''policy_text'', JStr (u ''No pets.'')), (u ''api_key'', JStr (u ''sk-1''))]
       (u ''api_key'')) = JStr (u ''sk-1'') \<and>
   resolve_api_key None (strip (u ''sk-1'')) = u ''sk-1'' \<and> u ''sk-1'' \<noteq> [] \<and>
   strip (u ''No pets.'') \<noteq> [] \<and>
   replies (u ''not json'') (create_call (u ''sk-1'') (strip (u ''No pets.''))) =
     Message (TextBlock (u ''not json'') # []) \<and>
   utf8_stdout (raw_response_line (u ''not json'')) = None \<and>
   strip_fences (u ''not json'') = Inr (u ''not json'') \<and>
   sample_loads (u ''not json'') =
     Inl (JSONDecodeError (u ''Expecting value: line 1 column 1 (char 0)'')) \<and>
   process None utf8_stdout sample_str sample_loads (replies (u ''not json'')) (request (u ''No pets.'') (u ''sk-1'')) =
     (Response 500 (JObj [(u ''error'',
        JStr (u ''Failed to parse Claude response as JSON: '' @
              u ''Expecting value: line 1 column 1 (char 0)''))]),
      [create_call (u ''sk-1'') (strip (u ''No pets.''))])"
proof -
  let ?kvs = "[(u ''policy_text'', JStr (u ''No pets.'')), (u ''api_key'', JStr (u ''sk-1''))]"
  have h1: "or_empty (map_of ?kvs (u ''policy_text'')) = JStr (u ''No pets.'')"
    by (simp add: or_empty_def u_def)
  have h2: "or_empty (map_of ?kvs (u ''api_key'')) = JStr (u ''sk-1'')"
    by (simp add: or_empty_def u_def)
  have h3: "resolve_api_key None (strip (u ''sk-1'')) = u ''sk-1''"
    by (simp add: resolve_api_key_def strip_def isspace_def u_def)
  have h4: "u ''sk-1'' \<noteq> []" by (simp add: u_def)
  have h5: "strip (u ''No pets.'') \<noteq> []" by (simp add: strip_def isspace_def u_def)
  have h6: "replies (u ''not json'') (create_call (u ''sk-1'') (strip (u ''No pets.''))) =
     Message (TextBlock (u ''not json'') # [])" by (simp add: replies_def)
  have h0: "utf8_stdout (raw_response_line (u ''not json'')) = None"
    by (rule utf8_stdout_raw_response_line) (simp add: u_def is_surrogate_def)
  have h7: "strip_fences (u ''not json'') = Inr (u ''not json'')"
    by (simp add: strip_fences_def strip_opening_fence_def strip_closing_fence_def
        startswith_def endswith_def fence_def strip_def isspace_def u_def)
  have h8: "sample_loads (u ''not json'') =
     Inl (JSONDecodeError (u ''Expecting value: line 1 column 1 (char 0)''))"
    by (simp add: sample_loads_def sample_values_def u_def)
  show ?thesis
    using invalid_json_is_parse_error
      [where create = "replies (u ''not json'')" and loads = sample_loads
         and stdout = utf8_stdout and py_str = sample_str,
        OF h1 h2 h3 h4 h5 h6 h0 h7 h8]
      h1 h2 h3 h4 h5 h6 h0 h7 h8
    by (simp add: request_def)
qed

text \<open>
  C6. For a reply whose text, stripped of its fences, parses: when the parsed value is an
  object, \<^verbatim>\<open>policies\<close> is the value of its key \<^verbatim>\<open>policies\<close>, and the empty array when
  the object has no such key; when the parsed value is an array, \<^verbatim>\<open>policies\<close> is that
  array.
\<close>

theorem policies_read_from_parsed_reply:
  assumes "strip_fences reply = Inr cleaned"
  shows "(loads cleaned = Inr (JObj entries) \<and> map_of entries (u ''policies'') = Some v \<longrightarrow>
            parse_reply loads reply = Inr v) \<and>
         (loads cleaned = Inr (JObj entries) \<and> map_of entries (u ''policies'') = None \<longrightarrow>
            parse_reply loads reply = Inr (JArr [])) \<and>
         (loads cleaned = Inr (JArr items) \<longrightarrow> parse_reply loads reply = Inr (JArr items))"
  by (simp add: parse_reply_def assms and_then_def policies_of_def)

theorem policies_read_from_parsed_reply_witness:
  \<open>strip_fences (fenced (u ''json'') (u ''{"policies":[{"category":"pet_policy"}]}'')) =
     Inr (u ''{"policies":[{"category":"pet_policy"}]}'') \<and>
   parse_reply sample_loads (fenced (u ''json'') (u ''{"policies":[{"category":"pet_policy"}]}'')) =
     Inr (JArr [JObj [(u ''category'', JStr (u ''pet_policy''))]]) \<and>
   strip_fences (u ''{}'') = Inr (u ''{}'') \<and>
   parse_reply sample_loads (u ''{}'') = Inr (JArr []) \<and>
   strip_fences (u ''[]'') = Inr (u ''[]'') \<and>
   parse_reply sample_loads (u ''[]'') = Inr (JArr [])\<close>
proof -
  have s1: \<open>strip_fences (fenced (u ''json'') (u ''{"policies":[{"category":"pet_policy"}]}'')) =
     Inr (u ''{"policies":[{"category":"pet_policy"}]}'')\<close>
    by (simp add: fenced_def strip_fences_def strip_opening_fence_def strip_closing_fence_def
        startswith_def endswith_def index_def fence_def newline_def strip_def isspace_def u_def)
  have s2: "strip_fences (u ''{}'') = Inr (u ''{}'')"
    by (simp add: strip_fences_def strip_opening_fence_def strip_closing_fence_def
        startswith_def endswith_def fence_def strip_def isspace_def u_def)
  have s3: "strip_fences (u ''[]'') = Inr (u ''[]'')"
    by (simp add: strip_fences_def strip_opening_fence_def strip_closing_fence_def
        startswith_def endswith_def fence_def strip_def isspace_def u_def)
  have l1: \<open>sample_loads (u ''{"policies":[{"category":"pet_policy"}]}'') =
      Inr (JObj [(u ''policies'', JArr [JObj [(u ''category'', JStr (u ''pet_policy''))]])]) \<and>
      map_of [(u ''policies'', JArr [JObj [(u ''category'', JStr (u ''pet_policy''))]])]
        (u ''policies'') = Some (JArr [JObj [(u ''category'', JStr (u ''pet_policy''))]])\<close>
    by (simp add: sample_loads_def sample_values_def u_def)
  have l2: "sample_loads (u ''{}'') = Inr (JObj []) \<and> map_of [] (u ''policies'') = None"
    by (simp add: sample_loads_def sample_values_def u_def)
  have l3: "sample_loads (u ''[]'') = Inr (JArr [])"
    by (simp add: sample_loads_def sample_values_def u_def)
  show ?thesis
    using policies_read_from_parsed_reply [OF s1, of sample_loads
        "[(u ''policies'', JArr [JObj [(u ''category'', JStr (u ''pet_policy''))]])]"
        "JArr [JObj [(u ''category'', JStr (u ''pet_policy''))]]"]
      policies_read_from_parsed_reply [OF s2, of sample_loads "[]"]
      policies_read_from_parsed_reply [OF s3, of sample_loads _ _ "[]"]
      s1 s2 s3 l1 l2 l3
    by simp
qed

text \<open>
  C7 says that fence-stripping is idempotent on any text. It removes one opening and one
  closing marker, so a reply that is fenced twice is changed by the second application:
  the first gives the inner fenced text, the second gives \<^verbatim>\<open>[]\<close>.
\<close>

theorem fence_stripping_idempotent_counterexample:
  "strip_fences (fenced [] (fenced (u ''json'') (u ''[]''))) = Inr (fenced (u ''json'') (u ''[]'')) \<and>
   and_then (strip_fences (fenced [] (fenced (u ''json'') (u ''[]'')))) strip_fences =
     Inr (u ''[]'') \<and>
   and_then (strip_fences (fenced [] (fenced (u ''json'') (u ''[]'')))) strip_fences \<noteq>
     strip_fences (fenced [] (fenced (u ''json'') (u ''[]'')))"
proof -
  have once: "strip_fences (fenced [] (fenced (u ''json'') (u ''[]''))) =
      Inr (fenced (u ''json'') (u ''[]''))"
    by (simp add: strip_fences_fenced strip_fenced)
  have "strip_fences (fenced (u ''json'') (u ''[]'')) = Inr (strip (u ''[]''))"
    by (rule strip_fences_fenced) (simp add: newline_def u_def)
  moreover have "strip (u ''[]'') = u ''[]''" by (simp add: strip_def isspace_def u_def)
  ultimately have twice:
    "and_then (strip_fences (fenced [] (fenced (u ''json'') (u ''[]'')))) strip_fences =
       Inr (u ''[]'')"
    by (simp add: once and_then_def)
  have "fenced (u ''json'') (u ''[]'') \<noteq> u ''[]''" by (simp add: fenced_def fence_def u_def)
  with once twice show ?thesis by simp
qed

text \<open>
  C7, amended. Fence-stripping is idempotent on every text whose stripped result neither
  starts nor ends with three backticks. It is exact: a text wrapped in a leading
  \<^verbatim>\<open>```json\<close> line and a trailing \<^verbatim>\<open>```\<close> line strips to exactly the trimmed text; and
  when the trimmed text neither starts nor ends with three backticks, as that of every
  JSON text, the wrapped and the unwrapped text strip to the same text and hence parse
  to the same value, whatever the parser.
\<close>

theorem fence_stripping_idempotent_and_exact:
  "(strip_fences reply = Inr cleaned \<and> \<not> startswith cleaned fence \<and> \<not> endswith cleaned fence
      \<longrightarrow> strip_fences cleaned = Inr cleaned) \<and>
   strip_fences (fenced (u ''json'') text) = Inr (strip text) \<and>
   (\<not> startswith (strip text) fence \<and> \<not> endswith (strip text) fence \<longrightarrow>
      strip_fences (fenced (u ''json'') text) = strip_fences text \<and>
      parse_reply loads (fenced (u ''json'') text) = parse_reply loads text)"
proof -
  have idem: "strip_fences cleaned = Inr cleaned"
    if "strip_fences reply = Inr cleaned" "\<not> startswith cleaned fence" "\<not> endswith cleaned fence"
  proof -
    have "strip cleaned = cleaned" using that(1) by (rule strip_fences_stripped)
    then show ?thesis using strip_fences_unfenced [of cleaned] that(2,3) by simp
  qed
  have wrapped: "strip_fences (fenced (u ''json'') text) = Inr (strip text)"
    by (rule strip_fences_fenced) (simp add: newline_def u_def)
  have same: "strip_fences (fenced (u ''json'') text) = strip_fences text"
    if "\<not> startswith (strip text) fence" "\<not> endswith (strip text) fence"
    using that by (simp add: wrapped strip_fences_unfenced)
  show ?thesis using idem wrapped same by (auto simp: parse_reply_def)
qed

theorem fence_stripping_idempotent_and_exact_witness:
  \<open>strip_fences (fenced (u ''json'') (u ''[]'')) = Inr (u ''[]'') \<and>
   \<not> startswith (u ''[]'') fence \<and> \<not> endswith (u ''[]'') fence \<and>
   strip_fences (u ''[]'') = Inr (u ''[]'') \<and>
   \<not> startswith (strip (u '' {"policies":[]} '')) fence \<and>
   \<not> endswith (strip (u '' {"policies":[]} '')) fence \<and>
   strip_fences (fenced (u ''json'') (u '' {"policies":[]} '')) = Inr (u ''{"policies":[]}'') \<and>
   strip_fences (u '' {"policies":[]} '') = Inr (u ''{"policies":[]}'') \<and>
   parse_reply sample_loads (fenced (u ''json'') (u '' {"policies":[]} '')) =
     parse_reply sample_loads (u '' {"policies":[]} '')\<close>
proof -
  have s0: "strip (u ''[]'') = u ''[]''" by (simp add: strip_def isspace_def u_def)
  have h1: "strip_fences (fenced (u ''json'') (u ''[]'')) = Inr (u ''[]'')"
    using strip_fences_fenced [of "u ''json''" "u ''[]''"] by (simp add: s0) (simp add: newline_def u_def)
  have h2: "\<not> startswith (u ''[]'') fence" by (simp add: startswith_def fence_def u_def)
  have h3: "\<not> endswith (u ''[]'') fence" by (simp add: endswith_def fence_def u_def)
  have s1: \<open>strip (u '' {"policies":[]} '') = u ''{"policies":[]}''\<close>
    by (simp add: strip_def isspace_def u_def)
  have h4: \<open>\<not> startswith (strip (u '' {"policies":[]} '')) fence\<close>
    unfolding s1 by (simp add: startswith_def fence_def u_def)
  have h5: \<open>\<not> endswith (strip (u '' {"policies":[]} '')) fence\<close>
    unfolding s1 by (simp add: endswith_def fence_def u_def)
  note t1 = fence_stripping_idempotent_and_exact
    [of "fenced (u ''json'') (u ''[]'')" "u ''[]''" "u ''[]''" sample_loads]
  note t2 = fence_stripping_idempotent_and_exact
    [of "u ''[]''" "u ''[]''" \<open>u '' {"policies":[]} ''\<close> sample_loads]
  from t1 h1 h2 h3 have i: "strip_fences (u ''[]'') = Inr (u ''[]'')" by blast
  from t2 have e1: \<open>strip_fences (fenced (u ''json'') (u '' {"policies":[]} '')) =
      Inr (strip (u '' {"policies":[]} ''))\<close> by blast
  from t2 h4 h5 have e2: \<open>strip_fences (fenced (u ''json'') (u '' {"policies":[]} '')) =
      strip_fences (u '' {"policies":[]} '')\<close> by blast
  from t2 h4 h5 have e3: \<open>parse_reply sample_loads (fenced (u ''json'') (u '' {"policies":[]} '')) =
      parse_reply sample_loads (u '' {"policies":[]} '')\<close> by blast
  have e4: \<open>strip_fences (u '' {"policies":[]} '') = Inr (strip (u '' {"policies":[]} ''))\<close>
    using e1 unfolding e2 .
  show ?thesis
    by (intro conjI h1 h2 h3 i h4 h5 e1 [unfolded s1] e4 [unfolded s1] e3)
qed




text \<open>
  C9. The handler validates no field of an atom, but the logging loop slices
  \<^verbatim>\<open>display_text\<close> (line 171): for the reply \<^verbatim>\<open>{"policies":[{"display_text":5}]}\<close> the
  slice raises \<^verbatim>\<open>TypeError\<close>, and the response is status 500 with that error instead of
  the array.
\<close>

theorem malformed_display_text_is_not_passed_through:
  \<open>process None utf8_stdout sample_str sample_loads (replies (u ''{"policies":[{"display_text":5}]}''))
     (request (u ''No pets.'') (u ''sk-1'')) =
   (Response 500 (JObj [(u ''error'', JStr (quoted (u ''int'') @ u '' object is not subscriptable''))]),
    [create_call (u ''sk-1'') (u ''No pets.'')])\<close>
proof -
  let ?kvs = "[(u ''policy_text'', JStr (u ''No pets.'')), (u ''api_key'', JStr (u ''sk-1''))]"
  have h1: "or_empty (map_of ?kvs (u ''policy_text'')) = JStr (u ''No pets.'')"
    by (simp add: or_empty_def u_def)
  have h2: "or_empty (map_of ?kvs (u ''api_key'')) = JStr (u ''sk-1'')"
    by (simp add: or_empty_def u_def)
  have h3: "resolve_api_key None (strip (u ''sk-1'')) = u ''sk-1''"
    by (simp add: resolve_api_key_def strip_def isspace_def u_def)
  have h4: "u ''sk-1'' \<noteq> []" by (simp add: u_def)
  have s: "strip (u ''No pets.'') = u ''No pets.''" by (simp add: strip_def isspace_def u_def)
  have h5: "strip (u ''No pets.'') \<noteq> []" unfolding s by (simp add: u_def)
  have sf: \<open>strip_fences (u ''{"policies":[{"display_text":5}]}'') =
      Inr (u ''{"policies":[{"display_text":5}]}'')\<close>
    by (simp add: strip_fences_def strip_opening_fence_def strip_closing_fence_def
        startswith_def endswith_def fence_def strip_def isspace_def u_def)
  have ld: \<open>sample_loads (u ''{"policies":[{"display_text":5}]}'') =
      Inr (JObj [(u ''policies'', JArr [JObj [(u ''display_text'', JInt 5)]])])\<close>
    by (simp add: sample_loads_def sample_values_def u_def)
  have pr: \<open>parse_reply sample_loads (u ''{"policies":[{"display_text":5}]}'') =
      Inr (JArr [JObj [(u ''display_text'', JInt 5)]])\<close>
    by (simp add: parse_reply_def sf ld policies_of_def and_then_def)
  have out: \<open>utf8_stdout (raw_response_line (u ''{"policies":[{"display_text":5}]}'')) = None\<close>
    by (rule utf8_stdout_raw_response_line) (simp add: u_def is_surrogate_def)
  have la: "log_atom utf8_stdout sample_str (JObj [(u ''display_text'', JInt 5)]) =
      Inl (TypeError (quoted (u ''int'') @ u '' object is not subscriptable''))"
    by (simp add: log_atom_def dict_get_def slice70_def and_then_def)
  have lg: "log_policies utf8_stdout sample_str (JArr [JObj [(u ''display_text'', JInt 5)]]) =
      Inl (TypeError (quoted (u ''int'') @ u '' object is not subscriptable''))"
    by (simp add: log_policies_def py_len_def iterate_def la and_then_def)
  have \<open>try_block utf8_stdout sample_str sample_loads (replies (u ''{"policies":[{"display_text":5}]}'')
        (create_call (u ''sk-1'') (strip (u ''No pets.'')))) =
      Inl (TypeError (quoted (u ''int'') @ u '' object is not subscriptable''))\<close>
    by (simp add: replies_def try_block_printed out pr lg and_then_def)
  then show ?thesis
    by (simp add: request_def process_called [OF h1 h2 h3 h4 h5] jsonify_error_def s)
qed

end
